theory Spec2Isabelle
  imports Complex_Main "HOL-Library.Char_ord" "HOL-Library.List_Lexorder"
begin

section \<open>Exceptions, strings and tables\<close>

text \<open>
  A Python exception is a value: the name of its class and its message. A function that
  can raise returns \<open>error + 'a\<close>, with \<open>Inl\<close> for the exception.
\<close>

datatype error = Error (exc_class: string) (message: string)

abbreviation ValueError :: "string \<Rightarrow> error" where
  "ValueError m \<equiv> Error ''ValueError'' m"

abbreviation FileNotFoundError :: "string \<Rightarrow> error" where
  "FileNotFoundError m \<equiv> Error ''FileNotFoundError'' m"

abbreviation KeyError :: "string \<Rightarrow> error" where
  "KeyError m \<equiv> Error ''KeyError'' m"

text \<open>
  \<open>str.lower()\<close> on ASCII text: the 26 capital letters are replaced, every other
  character stays. Strings are \<open>char list\<close>; text outside ASCII is not modelled.
\<close>

definition lower_char :: "char \<Rightarrow> char" where
  "lower_char c =
     (case map_of (zip ''ABCDEFGHIJKLMNOPQRSTUVWXYZ'' ''abcdefghijklmnopqrstuvwxyz'') c of
        Some l \<Rightarrow> l
      | None \<Rightarrow> c)"

definition lower :: "string \<Rightarrow> string" where
  "lower s = map lower_char s"

text \<open>
  A cell of a DataFrame is a string, a number or missing (\<open>NaN\<close>). A DataFrame is the
  list of its columns, each a name and its cells, in column order; a Series is the list
  of its cells. Floating-point numbers are modelled as reals.
\<close>

datatype cell = Str string | Num real | NaN

type_synonym series = "cell list"
type_synonym frame = "(string \<times> series) list"

definition columns :: "frame \<Rightarrow> string list" where
  "columns df = map fst df"

definition n_rows :: "frame \<Rightarrow> nat" where
  "n_rows df = (case df of [] \<Rightarrow> 0 | (_, c) # _ \<Rightarrow> length c)"

text \<open>\<open>df[name]\<close> raises \<open>KeyError\<close> for a column the frame does not have.\<close>

definition getitem :: "frame \<Rightarrow> string \<Rightarrow> error + series" where
  "getitem df name =
     (case map_of df name of None \<Rightarrow> Inl (KeyError name) | Some c \<Rightarrow> Inr c)"

text \<open>
  \<open>df[name] = s\<close> for a Series \<open>s\<close> on the frame's own index: an existing column is
  replaced where it stands, a new one is appended.
\<close>

definition assign :: "frame \<Rightarrow> string \<Rightarrow> series \<Rightarrow> frame" where
  "assign df name s =
     (if name \<in> set (columns df)
      then map (\<lambda>(n, c). if n = name then (n, s) else (n, c)) df
      else df @ [(name, s)])"

text \<open>
  The dtype of a column. It is not a function of the cells: a column in which every cell
  is missing has a numeric dtype (float64) when it was loaded so, and dtype \<open>object\<close>
  when it held strings in rows that were dropped. A column with a string in it has dtype
  \<open>object\<close>.
\<close>

datatype dtype = ObjectDtype | NumericDtype

definition is_str :: "cell \<Rightarrow> bool" where
  "is_str c = (case c of Str _ \<Rightarrow> True | _ \<Rightarrow> False)"

definition is_num :: "cell \<Rightarrow> bool" where
  "is_num c = (case c of Num _ \<Rightarrow> True | _ \<Rightarrow> False)"

text \<open>
  The accessor \<open>.str\<close> of a Series checks the values before any method runs: it infers
  their type, skipping missing ones, and raises \<open>AttributeError\<close> unless that is string,
  mixed or empty. So it raises on a column of numeric dtype, and on a column of dtype
  \<open>object\<close> that holds numbers and no string.
\<close>

definition str_accessor :: "dtype \<Rightarrow> series \<Rightarrow> error + series" where
  "str_accessor dt s =
     (if dt = ObjectDtype \<and> (list_ex is_str s \<or> \<not> list_ex is_num s)
      then Inr s
      else Inl (Error ''AttributeError'' ''Can only use .str accessor with string values!''))"

text \<open>
  The three Series methods \<open>categorize_expenses\<close> chains. \<open>.str.lower()\<close> lowercases a
  string and gives \<open>NaN\<close> for any other cell; \<open>.map(d)\<close> looks every cell up in the
  dict \<open>d\<close> as a whole key and gives \<open>NaN\<close> for a cell that is not a key;
  \<open>.fillna(v)\<close> puts \<open>v\<close> in every missing cell.
\<close>

definition str_lower :: "dtype \<Rightarrow> series \<Rightarrow> error + series" where
  "str_lower dt s =
     (case str_accessor dt s of
        Inl e \<Rightarrow> Inl e
      | Inr vals \<Rightarrow> Inr (map (\<lambda>c. case c of Str x \<Rightarrow> Str (lower x) | _ \<Rightarrow> NaN) vals))"

definition map_dict :: "(string \<rightharpoonup> string) \<Rightarrow> series \<Rightarrow> series" where
  "map_dict d s =
     map (\<lambda>c. case c of
                 Str k \<Rightarrow> (case d k of Some v \<Rightarrow> Str v | None \<Rightarrow> NaN)
               | _ \<Rightarrow> NaN) s"

definition fillna :: "string \<Rightarrow> series \<Rightarrow> series" where
  "fillna v s = map (\<lambda>c. case c of NaN \<Rightarrow> Str v | _ \<Rightarrow> c) s"

section \<open>load\_data.py\<close>

definition CATEGORY_MAP :: "string \<rightharpoonup> string" where
  "CATEGORY_MAP =
     map_of [(''coffee'', ''Food & Drink''),
             (''groceries'', ''Food & Drink''),
             (''internet'', ''Utilities''),
             (''rent'', ''Housing''),
             (''movie'', ''Entertainment'')]"

text \<open>
  \<^verbatim>\<open>df['category'] = df['description'].str.lower().map(CATEGORY_MAP).fillna("Other")\<close>

  The frame is given with the dtype of its \<open>description\<close> column.
\<close>

definition categorize_expenses :: "dtype \<Rightarrow> frame \<Rightarrow> error + frame" where
  "categorize_expenses description_dtype df =
     (case getitem df ''description'' of
        Inl e \<Rightarrow> Inl e
      | Inr d \<Rightarrow>
     (case str_lower description_dtype d of
        Inl e \<Rightarrow> Inl e
      | Inr lowered \<Rightarrow>
          Inr (assign df ''category'' (fillna ''Other'' (map_dict CATEGORY_MAP lowered)))))"

section \<open>predict.py\<close>

text \<open>
  What the scripts read from outside: which paths exist (\<open>os.path.exists\<close>), what
  \<open>pd.read_csv\<close> gives for a path (a frame, or the exception it raised) and, for
  predict.py, the two pickles \<open>joblib.load\<close> opens. A load gives the object or the
  exception it raised (\<open>FileNotFoundError\<close> for a missing file). The classifier is an object with the
  methods \<open>predict\<close> and \<open>predict_proba\<close> over feature matrices \<open>'x\<close>; the row of
  \<open>predict_proba\<close> for a document holds one probability per class, in the order of
  \<open>classes_\<close> (here \<open>classes\<close>). The vectorizer is used through its method \<open>transform\<close> only.
\<close>

record 'x classifier =
  classes :: "string list"
  predict :: "'x \<Rightarrow> error + string list"
  predict_proba :: "'x \<Rightarrow> error + real list list"

type_synonym 'x transformer = "series \<Rightarrow> error + 'x"

record files =
  path_exists :: "string \<Rightarrow> bool"
  read_csv :: "string \<Rightarrow> error + frame"

record 'x world = files +
  expense_model_pkl :: "error + 'x classifier"
  tfidf_vectorizer_pkl :: "error + 'x transformer"

text \<open>
  The parsed command line: \<open>--data\<close> and \<open>--text\<close> are \<open>None\<close> when not given,
  \<open>--output\<close> has a default.
\<close>

record args =
  arg_data :: "string option"
  arg_text :: "string option"
  arg_output :: string

text \<open>
  \<open>if args.data:\<close> tests the truth value of the argument: \<open>None\<close> and the empty
  string are false. \<open>given\<close> returns the argument when it is true.
\<close>

definition given :: "string option \<Rightarrow> string option" where
  "given a = (case a of None \<Rightarrow> None | Some s \<Rightarrow> if s = [] then None else Some s)"

text \<open>What a run leaves behind: the CSV file written, or the line printed for one text.\<close>

datatype effect =
  Saved string frame
| Printed string string real

text \<open>
  \<open>a.max()\<close> of a one-dimensional array, \<open>a.max(axis=1)\<close> of a matrix (numpy raises
  \<open>ValueError\<close> on a row of length 0), and \<open>a[0]\<close>.
\<close>

definition amax :: "real list \<Rightarrow> error + real" where
  "amax r =
     (case r of
        [] \<Rightarrow> Inl (ValueError ''zero-size array to reduction operation maximum which has no identity'')
      | x # xs \<Rightarrow> Inr (fold max xs x))"

fun amax_axis1 :: "real list list \<Rightarrow> error + real list" where
  "amax_axis1 [] = Inr []"
| "amax_axis1 (r # rs) =
     (case amax r of
        Inl e \<Rightarrow> Inl e
      | Inr m \<Rightarrow> (case amax_axis1 rs of Inl e \<Rightarrow> Inl e | Inr ms \<Rightarrow> Inr (m # ms)))"

definition item0 :: "'a list \<Rightarrow> error + 'a" where
  "item0 xs =
     (case xs of
        [] \<Rightarrow> Inl (Error ''IndexError'' ''index 0 is out of bounds for axis 0 with size 0'')
      | x # _ \<Rightarrow> Inr x)"

text \<open>
  \<open>df[name] = values\<close> for an array: pandas raises \<open>ValueError\<close> unless there is one
  value per row (its message also gives the two lengths).
\<close>

definition setitem :: "frame \<Rightarrow> string \<Rightarrow> series \<Rightarrow> error + frame" where
  "setitem df name vals =
     (if length vals \<noteq> n_rows df
      then Inl (ValueError ''Length of values does not match length of index'')
      else Inr (assign df name vals))"

text \<open>The branch \<open>if args.data:\<close>, lines 24 to 37.\<close>

definition data_branch ::
  "('x, 'm) world_scheme \<Rightarrow> 'x classifier \<Rightarrow> 'x transformer \<Rightarrow> string \<Rightarrow> string \<Rightarrow> error + effect" where
  "data_branch w model vectorizer path out =
     (case read_csv w path of
        Inl e \<Rightarrow> Inl e
      | Inr df \<Rightarrow>
          if ''description'' \<notin> set (columns df)
          then Inl (ValueError ''Input CSV must have a 'description' column.'')
          else
            (case getitem df ''description'' of
               Inl e \<Rightarrow> Inl e
             | Inr d \<Rightarrow>
            (case vectorizer d of
               Inl e \<Rightarrow> Inl e
             | Inr X \<Rightarrow>
            (case predict model X of
               Inl e \<Rightarrow> Inl e
             | Inr labels \<Rightarrow>
            (case setitem df ''predicted_category'' (map Str labels) of
               Inl e \<Rightarrow> Inl e
             | Inr df1 \<Rightarrow>
            (case predict_proba model X of
               Inl e \<Rightarrow> Inl e
             | Inr P \<Rightarrow>
            (case amax_axis1 P of
               Inl e \<Rightarrow> Inl e
             | Inr conf \<Rightarrow>
            (case setitem df1 ''confidence'' (map Num conf) of
               Inl e \<Rightarrow> Inl e
             | Inr df2 \<Rightarrow> Inr (Saved out df2)))))))))"

text \<open>
  The branch \<open>elif args.text:\<close>, lines 40 to 46. The printed line shows the confidence
  with two decimals; the effect keeps the value itself.
\<close>

definition text_branch :: "'x classifier \<Rightarrow> 'x transformer \<Rightarrow> string \<Rightarrow> error + effect" where
  "text_branch model vectorizer t =
     (case vectorizer [Str t] of
        Inl e \<Rightarrow> Inl e
      | Inr X \<Rightarrow>
     (case predict_proba model X of
        Inl e \<Rightarrow> Inl e
      | Inr P \<Rightarrow>
     (case item0 P of
        Inl e \<Rightarrow> Inl e
      | Inr probs \<Rightarrow>
     (case predict model X of
        Inl e \<Rightarrow> Inl e
      | Inr labels \<Rightarrow>
     (case item0 labels of
        Inl e \<Rightarrow> Inl e
      | Inr prediction \<Rightarrow>
     (case amax probs of
        Inl e \<Rightarrow> Inl e
      | Inr confidence \<Rightarrow> Inr (Printed t prediction confidence)))))))"

text \<open>
  \<open>main\<close> of predict.py: both pickles are loaded first (lines 18 and 19), then the
  branch is chosen.
\<close>

definition predict_main :: "('x, 'm) world_scheme \<Rightarrow> args \<Rightarrow> error + effect" where
  "predict_main w a =
     (case expense_model_pkl w of
        Inl e \<Rightarrow> Inl e
      | Inr model \<Rightarrow>
     (case tfidf_vectorizer_pkl w of
        Inl e \<Rightarrow> Inl e
      | Inr vectorizer \<Rightarrow>
     (case given (arg_data a) of
        Some path \<Rightarrow> data_branch w model vectorizer path (arg_output a)
      | None \<Rightarrow>
     (case given (arg_text a) of
        Some t \<Rightarrow> text_branch model vectorizer t
      | None \<Rightarrow>
          Inl (ValueError
            ''Please provide either --data <file.csv> or --text 'expense description'.'')))))"

text \<open>
  Two worlds for concrete runs. In \<open>no_pickles\<close> no model was ever saved. In \<open>demo_world\<close>
  both pickles load: the feature matrix is the list of rows it was made from, and the
  classifier knows two classes.
\<close>

definition no_pickles :: "unit world" where
  "no_pickles =
     \<lparr>path_exists = (\<lambda>p. False),
      read_csv = (\<lambda>p. Inl (FileNotFoundError p)),
      expense_model_pkl =
        Inl (FileNotFoundError ''No such file or directory: 'models/expense_model.pkl' ''),
      tfidf_vectorizer_pkl =
        Inl (FileNotFoundError ''No such file or directory: 'models/tfidf_vectorizer.pkl' '')\<rparr>"

definition demo_classifier :: "series classifier" where
  "demo_classifier =
     \<lparr>classes = [''Food & Drink'', ''Housing''],
      predict = (\<lambda>X. Inr (map (\<lambda>_. ''Food & Drink'') X)),
      predict_proba = (\<lambda>X. Inr (map (\<lambda>_. [7 / 10, 3 / 10]) X))\<rparr>"

definition demo_world :: "series world" where
  "demo_world =
     \<lparr>path_exists = (\<lambda>p. p = ''new.csv''),
      read_csv =
        (\<lambda>p. if p = ''new.csv''
              then Inr [(''description'', [Str ''coffee'', Str ''rent''])]
              else Inl (FileNotFoundError p)),
      expense_model_pkl = Inr demo_classifier,
      tfidf_vectorizer_pkl = Inr (\<lambda>d. Inr d)\<rparr>"

text \<open>
  A classifier whose \<open>predict\<close> does not follow its own \<open>predict_proba\<close> (as a
  support vector machine with probability estimates may do).
\<close>

definition disagreeing_classifier :: "series classifier" where
  "disagreeing_classifier =
     \<lparr>classes = [''Food & Drink'', ''Housing''],
      predict = (\<lambda>X. Inr (map (\<lambda>_. ''Housing'') X)),
      predict_proba = (\<lambda>X. Inr (map (\<lambda>_. [7 / 10, 3 / 10]) X))\<rparr>"

section \<open>features.py\<close>

text \<open>
  \<open>extract_features\<close> builds a new \<open>TfidfVectorizer(stop_words="english")\<close> on every call
  and calls its \<open>fit_transform\<close> once. The library call is the parameter
  \<open>fit_transform\<close>: what a fresh vectorizer returns for the documents, the feature matrix
  and the fitted vectorizer, or the exception it raises.
\<close>

definition extract_features ::
  "(series \<Rightarrow> error + 'x \<times> 'v) \<Rightarrow> frame \<Rightarrow> error + 'x \<times> series \<times> 'v" where
  "extract_features fit_transform df =
     (case getitem df ''description'' of
        Inl e \<Rightarrow> Inl e
      | Inr d \<Rightarrow>
     (case fit_transform d of
        Inl e \<Rightarrow> Inl e
      | Inr (X_features, vectorizer) \<Rightarrow>
     (case getitem df ''category'' of
        Inl e \<Rightarrow> Inl e
      | Inr y_labels \<Rightarrow> Inr (X_features, y_labels, vectorizer))))"

section \<open>The library's TfidfVectorizer\<close>

text \<open>
  features.py line 51 builds \<open>TfidfVectorizer(stop_words="english")\<close> of scikit-learn and
  line 52 calls its \<open>fit_transform\<close>; predict.py calls \<open>transform\<close> on the unpickled
  object. The class is library code, not part of the repository: the definitions of this
  section follow the library's documented behaviour for the arguments the code passes,
  every other argument at its default (\<open>lowercase=True\<close>, the token pattern
  \<open>(?u)\b\w\w+\b\<close>, single words, \<open>min_df=1\<close>, \<open>max_df=1.0\<close>, \<open>norm='l2'\<close>,
  \<open>use_idf=True\<close>, \<open>smooth_idf=True\<close>, \<open>sublinear_tf=False\<close>). They cover ASCII text,
  and floating-point numbers are reals. The English stop word list is a parameter.

  A token is a maximal run of two or more word characters (letters, digits and the
  underscore) of the lowercased document; tokens in the stop word list are dropped.
\<close>

definition word_char :: "char \<Rightarrow> bool" where
  "word_char c =
     (c \<in> set ''abcdefghijklmnopqrstuvwxyzABCDEFGHIJKLMNOPQRSTUVWXYZ0123456789_'')"

fun word_runs :: "string \<Rightarrow> string \<Rightarrow> string list" where
  "word_runs run [] = [rev run]"
| "word_runs run (c # cs) =
     (if word_char c then word_runs (c # run) cs else rev run # word_runs [] cs)"

definition tokenize :: "string \<Rightarrow> string list" where
  "tokenize s = filter (\<lambda>w. 2 \<le> length w) (word_runs [] s)"

definition analyze :: "string list \<Rightarrow> string \<Rightarrow> string list" where
  "analyze sw doc = filter (\<lambda>w. w \<notin> set sw) (tokenize (lower doc))"

text \<open>
  A document that is \<open>NaN\<close> is refused by the library's decoder; a number has no method
  \<open>lower\<close>. The documents are analysed in order and the first exception ends the call.
  A missing cell is the object \<open>np.nan\<close> here, as in a list of documents or in a column
  that also holds strings; in a column of dtype float64, where every cell is missing, the
  library fails on the same cell with \<open>AttributeError\<close> instead: the cell is a number.
\<close>

definition analyze_cell :: "string list \<Rightarrow> cell \<Rightarrow> error + string list" where
  "analyze_cell sw c =
     (case c of
        Str s \<Rightarrow> Inr (analyze sw s)
      | NaN \<Rightarrow> Inl (ValueError ''np.nan is an invalid document, expected byte or unicode string.'')
      | Num x \<Rightarrow> Inl (Error ''AttributeError'' ''object has no attribute 'lower' ''))"

fun analyze_all :: "string list \<Rightarrow> series \<Rightarrow> error + string list list" where
  "analyze_all sw [] = Inr []"
| "analyze_all sw (c # cs) =
     (case analyze_cell sw c of
        Inl e \<Rightarrow> Inl e
      | Inr t \<Rightarrow> (case analyze_all sw cs of Inl e \<Rightarrow> Inl e | Inr ts \<Rightarrow> Inr (t # ts)))"

text \<open>
  \<open>_count_vocab\<close>: the vocabulary is a dict from term to index, here the list of its
  terms in index order. While fitting (\<open>fixed_vocab=False\<close>) a term seen for the first
  time gets the next free index; with a fixed vocabulary an unknown term is skipped.
  \<open>_sort_features\<close> then renumbers the terms of a new vocabulary in sorted order.
\<close>

definition see_term :: "bool \<Rightarrow> string \<Rightarrow> string list \<Rightarrow> string list" where
  "see_term fixed_vocab t vocab =
     (if t \<in> set vocab \<or> fixed_vocab then vocab else vocab @ [t])"

definition count_vocab :: "bool \<Rightarrow> string list \<Rightarrow> string list list \<Rightarrow> string list" where
  "count_vocab fixed_vocab vocab docs = fold (see_term fixed_vocab) (concat docs) vocab"

definition sort_features :: "string list \<Rightarrow> string list" where
  "sort_features vocab = sort vocab"

definition vocabulary_index :: "string list \<Rightarrow> string \<rightharpoonup> nat" where
  "vocabulary_index vocab = map_of (zip vocab [0..<length vocab])"

text \<open>
  The weights of \<open>TfidfTransformer\<close> with \<open>smooth_idf=True\<close>, the raw term counts of a
  document, and the row of a document: counts times weights, divided by the row's
  Euclidean norm unless that is zero (\<open>norm='l2'\<close>).
\<close>

definition document_frequency :: "string list list \<Rightarrow> string \<Rightarrow> nat" where
  "document_frequency docs t = length (filter (\<lambda>toks. t \<in> set toks) docs)"

definition idf_weight :: "nat \<Rightarrow> nat \<Rightarrow> real" where
  "idf_weight n d = ln ((1 + real n) / (1 + real d)) + 1"

definition term_counts :: "string list \<Rightarrow> string list \<Rightarrow> real list" where
  "term_counts vocab toks = map (\<lambda>t. real (count_list toks t)) vocab"

definition normalize_l2 :: "real list \<Rightarrow> real list" where
  "normalize_l2 row =
     (let s = sum_list (map (\<lambda>x. x * x) row)
      in if s = 0 then row else map (\<lambda>x. x / sqrt s) row)"

definition tfidf_row :: "string list \<Rightarrow> real list \<Rightarrow> string list \<Rightarrow> real list" where
  "tfidf_row vocab w toks = normalize_l2 (map2 (*) (term_counts vocab toks) w)"

text \<open>
  A vectorizer object: its stop word list, and its vocabulary and weights once fitted
  (\<open>vocabulary_\<close> and \<open>idf_\<close>). \<open>fit_transform\<close> and \<open>transform\<close> return the feature
  matrix together with the object as the call leaves it.
\<close>

record vectorizer =
  stop_words :: "string list"
  fitted :: "(string list \<times> real list) option"

definition TfidfVectorizer :: "string list \<Rightarrow> vectorizer" where
  "TfidfVectorizer sw = \<lparr>stop_words = sw, fitted = None\<rparr>"

definition fit_transform :: "vectorizer \<Rightarrow> series \<Rightarrow> error + real list list \<times> vectorizer" where
  "fit_transform v raw_documents =
     (case analyze_all (stop_words v) raw_documents of
        Inl e \<Rightarrow> Inl e
      | Inr docs \<Rightarrow>
          (let vocab0 = count_vocab False [] docs
           in if vocab0 = []
              then Inl (ValueError
                     ''empty vocabulary; perhaps the documents only contain stop words'')
              else
                (let vocab = sort_features vocab0;
                     w = map (\<lambda>t. idf_weight (length docs) (document_frequency docs t)) vocab
                 in Inr (map (tfidf_row vocab w) docs, v\<lparr>fitted := Some (vocab, w)\<rparr>))))"

definition transform :: "vectorizer \<Rightarrow> series \<Rightarrow> error + real list list \<times> vectorizer" where
  "transform v raw_documents =
     (case fitted v of
        None \<Rightarrow> Inl (Error ''NotFittedError'' ''The TF-IDF vectorizer is not fitted'')
      | Some (vocab0, w) \<Rightarrow>
          (case analyze_all (stop_words v) raw_documents of
             Inl e \<Rightarrow> Inl e
           | Inr docs \<Rightarrow>
               (let vocab = count_vocab True vocab0 docs
                in Inr (map (tfidf_row vocab w) docs, v\<lparr>fitted := Some (vocab, w)\<rparr>))))"

text \<open>
  Ten words of the library's English stop word list, for concrete runs, and a frame.
\<close>

definition stop_sample :: "string list" where
  "stop_sample = [''a'', ''an'', ''and'', ''at'', ''for'', ''in'', ''of'', ''on'', ''the'', ''to'']"

definition rent_coffee :: frame where
  "rent_coffee = [(''description'', [Str ''rent coffee'']), (''category'', [Str ''Housing''])]"

section \<open>Facts about tables\<close>

lemma map_of_assign_same: "map_of (assign df name s) name = Some s"
proof (cases "name \<in> set (columns df)")
  case True
  then have "map_of (map (\<lambda>(n, c). if n = name then (n, s) else (n, c)) df) name = Some s"
    by (induction df) (auto simp: columns_def)
  with True show ?thesis by (simp add: assign_def)
next
  case False
  then have "map_of df name = None"
    by (simp add: columns_def map_of_eq_None_iff)
  with False show ?thesis by (simp add: assign_def map_add_def)
qed

lemma getitem_assign_same: "getitem (assign df name s) name = Inr s"
  by (simp add: getitem_def map_of_assign_same)

lemma map_of_assign_other: "m \<noteq> name \<Longrightarrow> map_of (assign df name s) m = map_of df m"
proof (cases "name \<in> set (columns df)")
  case True
  assume "m \<noteq> name"
  then have "map_of (map (\<lambda>(n, c). if n = name then (n, s) else (n, c)) df) m = map_of df m"
    by (induction df) auto
  with True show ?thesis by (simp add: assign_def)
next
  case False
  assume "m \<noteq> name"
  with False show ?thesis by (simp add: assign_def map_add_def split: option.splits)
qed

lemma getitem_assign_other: "m \<noteq> name \<Longrightarrow> getitem (assign df name s) m = getitem df m"
  by (simp add: getitem_def map_of_assign_other)

lemma amax_Max: "amax r = Inr m \<Longrightarrow> r \<noteq> [] \<and> m = Max (set r)"
  by (cases r) (auto simp: amax_def Max.set_eq_fold [symmetric])

lemma amax_axis1_Max:
  "amax_axis1 P = Inr ms \<Longrightarrow> ms = map (\<lambda>r. Max (set r)) P \<and> [] \<notin> set P"
proof (induction P arbitrary: ms)
  case Nil
  then show ?case by simp
next
  case (Cons r rs)
  then show ?case
    by (auto split: sum.splits dest: amax_Max)
qed

lemma CATEGORY_MAP_dom:
  "dom CATEGORY_MAP = {''coffee'', ''groceries'', ''internet'', ''rent'', ''movie''}"
  by (auto simp: CATEGORY_MAP_def split: if_splits)

section \<open>Facts about the vectorizer\<close>

lemma analyze_all_Inr:
  "analyze_all sw d = Inr docs \<Longrightarrow>
     length docs = length d \<and>
     (\<forall>k < length d. \<exists>s. d ! k = Str s \<and> docs ! k = analyze sw s)"
proof (induction d arbitrary: docs)
  case Nil
  then show ?case by simp
next
  case (Cons c cs)
  from Cons.prems obtain t ts where
    c: "analyze_cell sw c = Inr t" and cs: "analyze_all sw cs = Inr ts" and docs: "docs = t # ts"
    by (auto split: sum.splits)
  from c obtain s where s: "c = Str s" "t = analyze sw s"
    by (auto simp: analyze_cell_def split: cell.splits)
  from Cons.IH [OF cs] s docs show ?case
    by (auto simp: nth_Cons split: nat.splits)
qed

lemma fold_see_term_set:
  "set (fold (see_term False) xs acc) = set acc \<union> set xs"
  by (induction xs arbitrary: acc) (auto simp: see_term_def)

lemma fold_see_term_distinct:
  "distinct acc \<Longrightarrow> distinct (fold (see_term False) xs acc)"
  by (induction xs arbitrary: acc) (auto simp: see_term_def)

lemma count_vocab_set: "set (count_vocab False [] docs) = \<Union> (set ` set docs)"
  by (simp add: count_vocab_def fold_see_term_set)

lemma count_vocab_distinct: "distinct (count_vocab False [] docs)"
  by (simp add: count_vocab_def fold_see_term_distinct)

lemma count_vocab_fixed: "count_vocab True vocab docs = vocab"
proof -
  have "fold (see_term True) xs vocab = vocab" for xs
    by (induction xs) (simp_all add: see_term_def)
  then show ?thesis by (simp add: count_vocab_def)
qed

lemma vocabulary_index_nth:
  "distinct vocab \<Longrightarrow> i < length vocab \<Longrightarrow> vocabulary_index vocab (vocab ! i) = Some i"
  by (simp add: vocabulary_index_def map_of_zip_nth)

lemma vocabulary_index_Some:
  "vocabulary_index vocab t = Some i \<Longrightarrow> i < length vocab \<and> vocab ! i = t"
proof -
  assume "vocabulary_index vocab t = Some i"
  then have "(t, i) \<in> set (zip vocab [0..<length vocab])"
    by (simp add: vocabulary_index_def map_of_SomeD)
  then show ?thesis
    by (auto simp: set_zip)
qed

lemma sum_squares_zero_iff:
  "sum_list (map (\<lambda>x. x * x) (row :: real list)) = 0 \<longleftrightarrow> (\<forall>x \<in> set row. x = 0)"
proof -
  have "sum_list (map (\<lambda>x. x * x) row) = 0 \<longleftrightarrow> (\<forall>y \<in> set (map (\<lambda>x. x * x) row). y = 0)"
    by (rule sum_list_nonneg_eq_0_iff) auto
  then show ?thesis by simp
qed

lemma fit_transform_Inr:
  assumes "fit_transform v d = Inr (X, v')"
  shows "\<exists>docs vocab w.
           analyze_all (stop_words v) d = Inr docs \<and>
           count_vocab False [] docs \<noteq> [] \<and>
           vocab = sort_features (count_vocab False [] docs) \<and>
           w = map (\<lambda>t. idf_weight (length docs) (document_frequency docs t)) vocab \<and>
           X = map (tfidf_row vocab w) docs \<and>
           v' = v\<lparr>fitted := Some (vocab, w)\<rparr>"
  using assms
  by (auto simp: fit_transform_def Let_def split: sum.splits if_splits)

lemma extract_features_Inr:
  assumes "extract_features ft df = Inr (X, y, v)"
  shows "\<exists>d. getitem df ''description'' = Inr d \<and> ft d = Inr (X, v) \<and>
             getitem df ''category'' = Inr y"
  using assms
  by (auto simp: extract_features_def split: sum.splits)

lemma sort_features_props:
  "set (sort_features vocab) = set vocab"
  "distinct (sort_features vocab) = distinct vocab"
  "sorted (sort_features vocab)"
  "length (sort_features vocab) = length vocab"
  by (simp_all add: sort_features_def)

lemma tfidf_row_unknown:
  assumes "length w = length vocab" and "set toks \<inter> set vocab = {}"
  shows "tfidf_row vocab w toks = replicate (length vocab) 0"
proof -
  have "count_list toks t = 0" if "t \<in> set vocab" for t
    using that assms(2) by (auto simp: count_list_0_iff)
  then have raw: "map2 (*) (term_counts vocab toks) w = replicate (length vocab) 0"
    using assms(1) by (auto simp: term_counts_def list_eq_iff_nth_eq)
  have "sum_list (map (\<lambda>x. x * x) (replicate (length vocab) (0 :: real))) = 0"
    by (subst sum_squares_zero_iff) simp
  then show ?thesis
    by (simp add: tfidf_row_def raw normalize_l2_def Let_def)
qed

lemma strict_index_order:
  assumes "sorted vocab" and "distinct vocab"
    and "vocabulary_index vocab s = Some i" and "vocabulary_index vocab t = Some j"
  shows "s < t \<longleftrightarrow> i < j"
proof -
  from assms(3,4) have i: "i < length vocab" "vocab ! i = s" and j: "j < length vocab" "vocab ! j = t"
    using vocabulary_index_Some by blast+
  have strict: "sorted_wrt (<) vocab"
    using assms(1,2) by (simp add: strict_sorted_iff)
  have up: "vocab ! a < vocab ! b" if "a < b" "b < length vocab" for a b
    using strict that by (simp add: sorted_wrt_nth_less)
  show ?thesis
  proof
    assume "s < t"
    show "i < j"
    proof (rule ccontr)
      assume "\<not> i < j"
      then consider "j = i" | "j < i" by linarith
      then show False
      proof cases
        case 1
        with i j \<open>s < t\<close> show False by simp
      next
        case 2
        from up [OF 2 i(1)] i j \<open>s < t\<close> show False by simp
      qed
    qed
  next
    assume "i < j"
    from up [OF this j(1)] i j show "s < t" by simp
  qed
qed

lemma fit_transform_fitted:
  assumes "fit_transform v0 train = Inr (X0, v)"
  shows "\<exists>vocab w. fitted v = Some (vocab, w) \<and> length w = length vocab \<and> vocab \<noteq> [] \<and>
           stop_words v = stop_words v0"
proof -
  from fit_transform_Inr [OF assms] obtain docs vocab w where
    ne: "count_vocab False [] docs \<noteq> []" and
    vocab: "vocab = sort_features (count_vocab False [] docs)" and
    w: "w = map (\<lambda>t. idf_weight (length docs) (document_frequency docs t)) vocab" and
    v: "v = v0\<lparr>fitted := Some (vocab, w)\<rparr>"
    by blast
  from ne have "vocab \<noteq> []"
    using sort_features_props(4) [of "count_vocab False [] docs"] by (auto simp: vocab)
  with w v show ?thesis by simp
qed

text \<open>Concrete runs, evaluated once.\<close>

lemma rent_coffee_run:
  "extract_features (fit_transform (TfidfVectorizer stop_sample)) rent_coffee =
     Inr ([[1 / sqrt 2, 1 / sqrt 2]], [Str ''Housing''],
          \<lparr>stop_words = stop_sample, fitted = Some ([''coffee'', ''rent''], [1, 1])\<rparr>)"
  by (simp add: extract_features_def getitem_def rent_coffee_def fit_transform_def
      TfidfVectorizer_def analyze_cell_def analyze_def tokenize_def word_char_def lower_def
      lower_char_def stop_sample_def count_vocab_def see_term_def sort_features_def
      idf_weight_def document_frequency_def tfidf_row_def term_counts_def normalize_l2_def
      Let_def)

lemma coffee_fit:
  "fit_transform (TfidfVectorizer stop_sample) [Str ''coffee''] =
     Inr ([[1]], \<lparr>stop_words = stop_sample, fitted = Some ([''coffee''], [1])\<rparr>)"
  by (simp add: fit_transform_def
      TfidfVectorizer_def analyze_cell_def analyze_def tokenize_def word_char_def lower_def
      lower_char_def stop_sample_def count_vocab_def see_term_def sort_features_def
      idf_weight_def document_frequency_def tfidf_row_def term_counts_def normalize_l2_def
      Let_def)

lemma rent_refit:
  "fit_transform \<lparr>stop_words = stop_sample, fitted = Some ([''coffee''], [1])\<rparr> [Str ''rent''] =
     Inr ([[1]], \<lparr>stop_words = stop_sample, fitted = Some ([''rent''], [1])\<rparr>)"
  by (simp add: fit_transform_def
      TfidfVectorizer_def analyze_cell_def analyze_def tokenize_def word_char_def lower_def
      lower_char_def stop_sample_def count_vocab_def see_term_def sort_features_def
      idf_weight_def document_frequency_def tfidf_row_def term_counts_def normalize_l2_def
      Let_def)

section \<open>The order of the vocabulary\<close>

text \<open>
  C2, as amended. When \<open>extract_features\<close> succeeds, the vocabulary holds each token of
  the descriptions once, and the indices follow the order of the terms as strings (by
  character code), not the order of first appearance: of two terms the smaller one has
  the smaller index.
\<close>

theorem extract_features_vocabulary_sorted:
  assumes "extract_features (fit_transform (TfidfVectorizer sw)) df = Inr (X, y, v)"
  shows "\<exists>d docs vocab w.
           getitem df ''description'' = Inr d \<and>
           analyze_all sw d = Inr docs \<and>
           fitted v = Some (vocab, w) \<and>
           set vocab = \<Union> (set ` set docs) \<and>
           distinct vocab \<and>
           sorted vocab \<and>
           (\<forall>i < length vocab. vocabulary_index vocab (vocab ! i) = Some i) \<and>
           (\<forall>s t i j.
              vocabulary_index vocab s = Some i \<and> vocabulary_index vocab t = Some j \<longrightarrow>
              (s < t \<longleftrightarrow> i < j))"
proof -
  from extract_features_Inr [OF assms] obtain d where
    d: "getitem df ''description'' = Inr d" and
    ft: "fit_transform (TfidfVectorizer sw) d = Inr (X, v)"
    by blast
  from fit_transform_Inr [OF ft] obtain docs vocab w where
    docs: "analyze_all sw d = Inr docs" and
    vocab: "vocab = sort_features (count_vocab False [] docs)" and
    v: "v = (TfidfVectorizer sw)\<lparr>fitted := Some (vocab, w)\<rparr>"
    by (auto simp: TfidfVectorizer_def)
  have 1: "set vocab = \<Union> (set ` set docs)"
    by (simp add: vocab sort_features_props count_vocab_set)
  have 2: "distinct vocab"
    by (simp add: vocab sort_features_props count_vocab_distinct)
  have 3: "sorted vocab"
    by (simp add: vocab sort_features_props)
  have 4: "\<forall>i < length vocab. vocabulary_index vocab (vocab ! i) = Some i"
    using 2 by (simp add: vocabulary_index_nth)
  have 5: "\<forall>s t i j.
      vocabulary_index vocab s = Some i \<and> vocabulary_index vocab t = Some j \<longrightarrow>
      (s < t \<longleftrightarrow> i < j)"
    using strict_index_order [OF 3 2] by blast
  have "fitted v = Some (vocab, w)" by (simp add: v)
  with d docs 1 2 3 4 5 show ?thesis by blast
qed

theorem extract_features_vocabulary_sorted_witness:
  "extract_features (fit_transform (TfidfVectorizer stop_sample)) rent_coffee =
     Inr ([[1 / sqrt 2, 1 / sqrt 2]], [Str ''Housing''],
          \<lparr>stop_words = stop_sample, fitted = Some ([''coffee'', ''rent''], [1, 1])\<rparr>) \<and>
   sorted [''coffee'', ''rent''] \<and>
   vocabulary_index [''coffee'', ''rent''] ''coffee'' = Some 0 \<and>
   vocabulary_index [''coffee'', ''rent''] ''rent'' = Some 1 \<and>
   ''coffee'' < ''rent''"
proof -
  note h = rent_coffee_run
  from extract_features_vocabulary_sorted [OF h] obtain vocab w where
    f: "fitted \<lparr>stop_words = stop_sample, fitted = Some ([''coffee'', ''rent''], [1, 1])\<rparr> =
          Some (vocab, w)" and
    s: "sorted vocab" and
    o: "\<forall>s t i j.
      vocabulary_index vocab s = Some i \<and> vocabulary_index vocab t = Some j \<longrightarrow>
      (s < t \<longleftrightarrow> i < j)"
    by blast
  from f have vocab: "vocab = [''coffee'', ''rent'']" by simp
  have i: "vocabulary_index vocab ''coffee'' = Some 0" "vocabulary_index vocab ''rent'' = Some 1"
    by (simp_all add: vocab vocabulary_index_def)
  with o have "(''coffee'' < ''rent'') = ((0 :: nat) < 1)" by blast
  then have "''coffee'' < ''rent''" by simp
  with h s i vocab show ?thesis by simp
qed

text \<open>
  The claim as first stated fails on the single description \<open>"rent coffee"\<close>: \<open>rent\<close>
  appears first and gets index 1, \<open>coffee\<close> gets index 0.
\<close>

theorem first_appearance_counterexample:
  "analyze stop_sample ''rent coffee'' = [''rent'', ''coffee''] \<and>
   count_vocab False [] [[''rent'', ''coffee'']] = [''rent'', ''coffee''] \<and>
   extract_features (fit_transform (TfidfVectorizer stop_sample)) rent_coffee =
     Inr ([[1 / sqrt 2, 1 / sqrt 2]], [Str ''Housing''],
          \<lparr>stop_words = stop_sample, fitted = Some ([''coffee'', ''rent''], [1, 1])\<rparr>) \<and>
   vocabulary_index [''coffee'', ''rent''] ''rent'' = Some 1 \<and>
   vocabulary_index [''coffee'', ''rent''] ''coffee'' = Some 0"
  by (simp add: rent_coffee_run)
    (simp add: analyze_def tokenize_def word_char_def lower_def lower_char_def stop_sample_def
      count_vocab_def see_term_def vocabulary_index_def)

section \<open>The reported label and confidence\<close>

lemma data_branch_Inr:
  assumes "data_branch w model vectorizer path out = Inr eff"
  shows "\<exists>df d X labels P df'.
           read_csv w path = Inr df \<and>
           getitem df ''description'' = Inr d \<and>
           vectorizer d = Inr X \<and>
           predict model X = Inr labels \<and>
           predict_proba model X = Inr P \<and>
           [] \<notin> set P \<and>
           eff = Saved out df' \<and>
           getitem df' ''predicted_category'' = Inr (map Str labels) \<and>
           getitem df' ''confidence'' = Inr (map (\<lambda>r. Num (Max (set r))) P)"
proof -
  from assms obtain df d X labels df1 P conf df2 where
    csv: "read_csv w path = Inr df" and
    d: "getitem df ''description'' = Inr d" and
    X: "vectorizer d = Inr X" and
    labels: "predict model X = Inr labels" and
    df1: "setitem df ''predicted_category'' (map Str labels) = Inr df1" and
    P: "predict_proba model X = Inr P" and
    conf: "amax_axis1 P = Inr conf" and
    df2: "setitem df1 ''confidence'' (map Num conf) = Inr df2" and
    eff: "eff = Saved out df2"
    by (auto simp: data_branch_def split: sum.splits if_splits)
  from df1 have df1': "df1 = assign df ''predicted_category'' (map Str labels)"
    by (simp add: setitem_def split: if_splits)
  from df2 have df2': "df2 = assign df1 ''confidence'' (map Num conf)"
    by (simp add: setitem_def split: if_splits)
  from conf have c: "conf = map (\<lambda>r. Max (set r)) P" and ne: "[] \<notin> set P"
    using amax_axis1_Max by blast+
  have "getitem df2 ''predicted_category'' = Inr (map Str labels)"
    by (simp add: df2' df1' getitem_assign_other getitem_assign_same)
  moreover have "getitem df2 ''confidence'' = Inr (map (\<lambda>r. Num (Max (set r))) P)"
    by (simp add: df2' c getitem_assign_same comp_def)
  ultimately show ?thesis
    using csv d X labels P ne eff by blast
qed

lemma text_branch_Inr:
  assumes "text_branch model vectorizer t = Inr eff"
  shows "\<exists>X labels P.
           vectorizer [Str t] = Inr X \<and>
           predict model X = Inr labels \<and>
           predict_proba model X = Inr P \<and>
           labels \<noteq> [] \<and> P \<noteq> [] \<and> hd P \<noteq> [] \<and>
           eff = Printed t (hd labels) (Max (set (hd P)))"
proof -
  from assms obtain X P probs labels prediction confidence where
    X: "vectorizer [Str t] = Inr X" and
    P: "predict_proba model X = Inr P" and
    probs: "item0 P = Inr probs" and
    labels: "predict model X = Inr labels" and
    prediction: "item0 labels = Inr prediction" and
    confidence: "amax probs = Inr confidence" and
    eff: "eff = Printed t prediction confidence"
    by (auto simp: text_branch_def split: sum.splits)
  from probs have "P \<noteq> []" and "probs = hd P"
    by (auto simp: item0_def split: list.splits)
  moreover from prediction have "labels \<noteq> []" and "prediction = hd labels"
    by (auto simp: item0_def split: list.splits)
  moreover from confidence have "probs \<noteq> []" and "confidence = Max (set probs)"
    using amax_Max by blast+
  ultimately show ?thesis using X P labels eff by blast
qed

text \<open>
  C5, as amended. predict.py has no resolver of its own: the reported label is what the
  classifier's \<open>predict\<close> returns for the document (the first label for \<open>--text\<close>, the
  whole column for \<open>--data\<close>), and the reported confidence is exactly the maximum of
  the document's row of \<open>predict_proba\<close>.
\<close>

theorem reported_label_and_confidence:
  "(text_branch model vectorizer t = Inr eff \<longrightarrow>
      (\<exists>X labels P.
         vectorizer [Str t] = Inr X \<and>
         predict model X = Inr labels \<and>
         predict_proba model X = Inr P \<and>
         labels \<noteq> [] \<and> P \<noteq> [] \<and> hd P \<noteq> [] \<and>
         eff = Printed t (hd labels) (Max (set (hd P))))) \<and>
   (data_branch w model vectorizer path out = Inr eff \<longrightarrow>
      (\<exists>df d X labels P df'.
         read_csv w path = Inr df \<and>
         getitem df ''description'' = Inr d \<and>
         vectorizer d = Inr X \<and>
         predict model X = Inr labels \<and>
         predict_proba model X = Inr P \<and>
         [] \<notin> set P \<and>
         eff = Saved out df' \<and>
         getitem df' ''predicted_category'' = Inr (map Str labels) \<and>
         getitem df' ''confidence'' = Inr (map (\<lambda>r. Num (Max (set r))) P)))"
  using text_branch_Inr data_branch_Inr by blast

theorem reported_label_and_confidence_witness:
  "text_branch demo_classifier (\<lambda>d. Inr d) ''coffee'' =
     Inr (Printed ''coffee'' ''Food & Drink'' (7 / 10)) \<and>
   (\<exists>X labels P.
      predict demo_classifier X = Inr labels \<and>
      predict_proba demo_classifier X = Inr P \<and>
      Printed ''coffee'' ''Food & Drink'' (7 / 10) =
        Printed ''coffee'' (hd labels) (Max (set (hd P)))) \<and>
   data_branch demo_world demo_classifier (\<lambda>d. Inr d) ''new.csv'' ''predictions.csv'' =
     Inr (Saved ''predictions.csv''
       [(''description'', [Str ''coffee'', Str ''rent'']),
        (''predicted_category'', [Str ''Food & Drink'', Str ''Food & Drink'']),
        (''confidence'', [Num (7 / 10), Num (7 / 10)])]) \<and>
   (\<exists>X labels P df'.
      predict demo_classifier X = Inr labels \<and>
      predict_proba demo_classifier X = Inr P \<and>
      getitem df' ''predicted_category'' = Inr (map Str labels) \<and>
      getitem df' ''confidence'' = Inr (map (\<lambda>r. Num (Max (set r))) P))"
proof -
  have h: "text_branch demo_classifier (\<lambda>d. Inr d) ''coffee'' =
      Inr (Printed ''coffee'' ''Food & Drink'' (7 / 10))"
    by (simp add: text_branch_def demo_classifier_def item0_def amax_def)
  have g: "data_branch demo_world demo_classifier (\<lambda>d. Inr d) ''new.csv'' ''predictions.csv'' =
     Inr (Saved ''predictions.csv''
       [(''description'', [Str ''coffee'', Str ''rent'']),
        (''predicted_category'', [Str ''Food & Drink'', Str ''Food & Drink'']),
        (''confidence'', [Num (7 / 10), Num (7 / 10)])])"
    by (simp add: data_branch_def demo_world_def demo_classifier_def columns_def getitem_def
        setitem_def n_rows_def assign_def amax_def)
  note r = reported_label_and_confidence
    [where model = demo_classifier and vectorizer = "\<lambda>d. Inr d" and t = "''coffee''"
       and w = demo_world and path = "''new.csv''" and out = "''predictions.csv''"]
  from r [where eff = "Printed ''coffee'' ''Food & Drink'' (7 / 10)", THEN conjunct1] h
  have 1: "\<exists>X labels P.
      predict demo_classifier X = Inr labels \<and>
      predict_proba demo_classifier X = Inr P \<and>
      Printed ''coffee'' ''Food & Drink'' (7 / 10) =
        Printed ''coffee'' (hd labels) (Max (set (hd P)))"
    by blast
  from r [where eff = "Saved ''predictions.csv''
       [(''description'', [Str ''coffee'', Str ''rent'']),
        (''predicted_category'', [Str ''Food & Drink'', Str ''Food & Drink'']),
        (''confidence'', [Num (7 / 10), Num (7 / 10)])]", THEN conjunct2] g
  have 2: "\<exists>X labels P df'.
      predict demo_classifier X = Inr labels \<and>
      predict_proba demo_classifier X = Inr P \<and>
      getitem df' ''predicted_category'' = Inr (map Str labels) \<and>
      getitem df' ''confidence'' = Inr (map (\<lambda>r. Num (Max (set r))) P)"
    by blast
  from h g 1 2 show ?thesis by blast
qed

text \<open>
  The claim as first stated, that the reported label is the one of maximum probability,
  fails for a classifier whose \<open>predict\<close> disagrees with its \<open>predict_proba\<close>: the label
  printed is \<open>Housing\<close>, of probability 0.3, next to \<open>Food & Drink\<close> of probability 0.7,
  and the confidence printed is 0.7.
\<close>

theorem reported_label_counterexample:
  "text_branch disagreeing_classifier (\<lambda>d. Inr d) ''rent'' =
     Inr (Printed ''rent'' ''Housing'' (7 / 10)) \<and>
   predict_proba disagreeing_classifier [Str ''rent''] = Inr [[7 / 10, 3 / 10]] \<and>
   map_of (zip (classes disagreeing_classifier) [7 / 10, 3 / 10 :: real]) ''Housing'' =
     Some (3 / 10) \<and>
   map_of (zip (classes disagreeing_classifier) [7 / 10, 3 / 10 :: real]) ''Food & Drink'' =
     Some (7 / 10) \<and>
   (3 / 10 :: real) < 7 / 10"
  by (simp add: text_branch_def disagreeing_classifier_def item0_def amax_def)

section \<open>Unknown terms\<close>

text \<open>
  C6. For a vectorizer that \<open>fit_transform\<close> has fitted, \<open>transform\<close> of a document none
  of whose tokens is in the vocabulary raises nothing and returns one row of zeros, as
  long as the vocabulary; and no call of \<open>transform\<close> changes the vectorizer, so the
  vocabulary never grows.
\<close>

theorem transform_unknown_terms:
  assumes "fit_transform v0 train = Inr (X0, v)"
    and "fitted v = Some (vocab, w)"
    and "set (analyze (stop_words v) doc) \<inter> set vocab = {}"
  shows "transform v [Str doc] = Inr ([replicate (length vocab) 0], v) \<and>
         (\<forall>d X v'. transform v d = Inr (X, v') \<longrightarrow> v' = v)"
proof -
  from fit_transform_fitted [OF assms(1)] assms(2) have len: "length w = length vocab"
    by auto
  have "tfidf_row vocab w (analyze (stop_words v) doc) = replicate (length vocab) 0"
    using len assms(3) by (rule tfidf_row_unknown)
  then have 1: "transform v [Str doc] = Inr ([replicate (length vocab) 0], v)"
    using assms(2) by (simp add: transform_def analyze_cell_def count_vocab_fixed)
  have 2: "\<forall>d X v'. transform v d = Inr (X, v') \<longrightarrow> v' = v"
    using assms(2) by (auto simp: transform_def count_vocab_fixed split: sum.splits)
  from 1 2 show ?thesis by blast
qed

theorem transform_unknown_terms_witness:
  "fit_transform (TfidfVectorizer stop_sample) [Str ''coffee''] =
     Inr ([[1]], \<lparr>stop_words = stop_sample, fitted = Some ([''coffee''], [1])\<rparr>) \<and>
   set (analyze stop_sample ''Taxi to the airport'') \<inter> set [''coffee''] = {} \<and>
   transform \<lparr>stop_words = stop_sample, fitted = Some ([''coffee''], [1])\<rparr>
     [Str ''Taxi to the airport''] =
     Inr ([[0]], \<lparr>stop_words = stop_sample, fitted = Some ([''coffee''], [1])\<rparr>)"
proof -
  let ?v = "\<lparr>stop_words = stop_sample, fitted = Some ([''coffee''], [1])\<rparr>"
  have a: "analyze stop_sample ''Taxi to the airport'' = [''taxi'', ''airport'']"
    by (simp add: analyze_def tokenize_def word_char_def lower_def lower_char_def stop_sample_def)
  have h: "set (analyze (stop_words ?v) ''Taxi to the airport'') \<inter> set [''coffee''] = {}"
    by (simp add: a)
  have f: "fitted ?v = Some ([''coffee''], [1])" by simp
  from transform_unknown_terms [OF coffee_fit f h] coffee_fit h show ?thesis by simp
qed

section \<open>Fitting again\<close>

text \<open>
  C8, as amended. Nothing guards against a second fit: \<open>fit_transform\<close> on a fitted
  vectorizer does what it does on a new one with the same stop words, replacing the
  vocabulary and the weights, and the exceptions it can raise are \<open>ValueError\<close> and
  \<open>AttributeError\<close>. \<open>extract_features\<close> would return the same with a fitted vectorizer
  as with the new one it builds on every call.
\<close>

theorem fit_transform_again:
  "fit_transform (v\<lparr>fitted := f\<rparr>) d = fit_transform (v\<lparr>fitted := None\<rparr>) d \<and>
   (fit_transform v d = Inl e \<longrightarrow> exc_class e \<in> {''ValueError'', ''AttributeError''}) \<and>
   (fit_transform v d = Inr (X, v') \<longrightarrow>
      fitted v' \<noteq> None \<and> (\<forall>d'. fit_transform v' d' = fit_transform v d') \<and>
      (\<forall>df. extract_features (fit_transform v') df = extract_features (fit_transform v) df))"
proof -
  have 1: "fit_transform (v\<lparr>fitted := f\<rparr>) d = fit_transform (v\<lparr>fitted := None\<rparr>) d" for v f d
    by (simp add: fit_transform_def Let_def split: sum.splits)
  have err: "exc_class e \<in> {''ValueError'', ''AttributeError''}"
    if "analyze_all sw d = Inl e" for sw d e
    using that
    by (induction d) (auto simp: analyze_cell_def split: sum.splits cell.splits)
  have 2: "exc_class e \<in> {''ValueError'', ''AttributeError''}" if "fit_transform v d = Inl e"
    using that err [of "stop_words v" d]
    by (auto simp: fit_transform_def Let_def split: sum.splits if_splits)
  have 3: "fitted v' \<noteq> None \<and> (\<forall>d'. fit_transform v' d' = fit_transform v d') \<and>
      (\<forall>df. extract_features (fit_transform v') df = extract_features (fit_transform v) df)"
    if "fit_transform v d = Inr (X, v')"
  proof -
    from fit_transform_Inr [OF that] obtain vocab w where v': "v' = v\<lparr>fitted := Some (vocab, w)\<rparr>"
      by blast
    have same: "fit_transform v' d' = fit_transform v d'" for d'
      by (simp add: v' fit_transform_def Let_def split: sum.splits)
    then have "fit_transform v' = fit_transform v" by (rule ext)
    with v' same show ?thesis by simp
  qed
  from 1 2 3 show ?thesis by blast
qed

theorem fit_transform_again_witness:
  "fit_transform (TfidfVectorizer stop_sample) [Str ''coffee''] =
     Inr ([[1]], \<lparr>stop_words = stop_sample, fitted = Some ([''coffee''], [1])\<rparr>) \<and>
   fit_transform \<lparr>stop_words = stop_sample, fitted = Some ([''coffee''], [1])\<rparr> [Str ''rent''] =
     fit_transform (TfidfVectorizer stop_sample) [Str ''rent''] \<and>
   fit_transform (TfidfVectorizer stop_sample) [NaN] =
     Inl (ValueError ''np.nan is an invalid document, expected byte or unicode string.'') \<and>
   exc_class (ValueError ''np.nan is an invalid document, expected byte or unicode string.'') \<in>
     {''ValueError'', ''AttributeError''}"
proof -
  let ?v = "\<lparr>stop_words = stop_sample, fitted = Some ([''coffee''], [1])\<rparr>"
  note t = fit_transform_again
    [where v = "TfidfVectorizer stop_sample" and d = "[Str ''coffee'']" and X = "[[1]]" and v' = ?v,
     THEN conjunct2, THEN conjunct2, THEN mp, OF coffee_fit]
  then have "fit_transform ?v [Str ''rent''] = fit_transform (TfidfVectorizer stop_sample) [Str ''rent'']"
    by blast
  moreover have n: "fit_transform (TfidfVectorizer stop_sample) [NaN] =
     Inl (ValueError ''np.nan is an invalid document, expected byte or unicode string.'')"
    by (simp add: fit_transform_def analyze_cell_def)
  moreover note fit_transform_again
    [where v = "TfidfVectorizer stop_sample" and d = "[NaN]"
       and e = "ValueError ''np.nan is an invalid document, expected byte or unicode string.''",
     THEN conjunct2, THEN conjunct1, THEN mp, OF n]
  ultimately show ?thesis using coffee_fit by simp
qed

text \<open>
  The claim as first stated names \<open>AlreadyFittedError\<close>; a vectorizer fitted on
  \<open>"coffee"\<close> is fitted again on \<open>"rent"\<close> and returns the new matrix.
\<close>

theorem already_fitted_counterexample:
  "fit_transform (TfidfVectorizer stop_sample) [Str ''coffee''] =
     Inr ([[1]], \<lparr>stop_words = stop_sample, fitted = Some ([''coffee''], [1])\<rparr>) \<and>
   fit_transform \<lparr>stop_words = stop_sample, fitted = Some ([''coffee''], [1])\<rparr> [Str ''rent''] =
     Inr ([[1]], \<lparr>stop_words = stop_sample, fitted = Some ([''rent''], [1])\<rparr>)"
  by (simp add: coffee_fit rent_refit)

section \<open>Categorising by exact match\<close>

lemma str_accessor_allowed:
  "(list_ex is_str d \<or> \<not> list_ex is_num d) \<longleftrightarrow>
   ((\<exists>s. Str s \<in> set d) \<or> (\<forall>c \<in> set d. c = NaN))"
proof -
  have is_str: "is_str c \<longleftrightarrow> (\<exists>s. c = Str s)" for c
    by (cases c) (simp_all add: is_str_def)
  have is_num: "is_num c \<longleftrightarrow> (\<exists>x. c = Num x)" for c
    by (cases c) (simp_all add: is_num_def)
  have s: "list_ex is_str d \<longleftrightarrow> (\<exists>s. Str s \<in> set d)"
    unfolding list_ex_iff is_str by blast
  have n: "list_ex is_num d \<longleftrightarrow> (\<exists>x. Num x \<in> set d)"
    unfolding list_ex_iff is_num by blast
  show ?thesis
  proof (cases "\<exists>s. Str s \<in> set d")
    case True
    with s show ?thesis by simp
  next
    case False
    have "(\<forall>c \<in> set d. c = NaN) \<longleftrightarrow> \<not> (\<exists>x. Num x \<in> set d)"
    proof
      assume "\<forall>c \<in> set d. c = NaN"
      then show "\<not> (\<exists>x. Num x \<in> set d)" by auto
    next
      assume no_num: "\<not> (\<exists>x. Num x \<in> set d)"
      show "\<forall>c \<in> set d. c = NaN"
      proof
        fix c assume c: "c \<in> set d"
        show "c = NaN"
        proof (cases c)
          case (Str x)
          with c False show ?thesis by blast
        next
          case (Num x)
          with c no_num show ?thesis by blast
        next
          case NaN
          then show ?thesis .
        qed
      qed
    qed
    with False s n show ?thesis by simp
  qed
qed

text \<open>
  C9, as amended. Take a frame with a \<open>description\<close> column. When the column has dtype
  \<open>object\<close> and holds a string, or nothing but missing cells, \<open>categorize_expenses\<close>
  returns a frame whose \<open>category\<close> column has one cell per row, none of them missing.
  The cell of a row is \<open>CATEGORY_MAP[lower(description)]\<close> when the whole lowercased
  description is a key of the map, and \<open>"Other"\<close> otherwise (also for a description that
  is missing or not a string); so a category other than \<open>"Other"\<close> is assigned only to a
  description that, lowercased, is one of the five keys. \<open>"coffee at starbucks"\<close> gets
  \<open>"Other"\<close>. On any other description column (a numeric dtype, or numbers and no string)
  the call raises \<open>AttributeError\<close> and no row gets a category.
\<close>

theorem categorize_expenses_exact_match:
  assumes "getitem df ''description'' = Inr d"
  shows "(dt = ObjectDtype \<and> ((\<exists>s. Str s \<in> set d) \<or> (\<forall>c \<in> set d. c = NaN)) \<longrightarrow>
            (\<exists>df' cats.
               categorize_expenses dt df = Inr df' \<and>
               getitem df' ''category'' = Inr cats \<and>
               length cats = length d \<and>
               NaN \<notin> set cats \<and>
               (\<forall>i < length d.
                  cats ! i =
                    Str (case d ! i of
                           Str s \<Rightarrow>
                             (case CATEGORY_MAP (lower s) of
                                Some c \<Rightarrow> c
                              | None \<Rightarrow> ''Other'')
                         | _ \<Rightarrow> ''Other'') \<and>
                  (cats ! i \<noteq> Str ''Other'' \<longrightarrow>
                     (\<exists>s. d ! i = Str s \<and>
                          lower s \<in>
                            {''coffee'', ''groceries'', ''internet'', ''rent'', ''movie''}))))) \<and>
         (\<not> (dt = ObjectDtype \<and> ((\<exists>s. Str s \<in> set d) \<or> (\<forall>c \<in> set d. c = NaN))) \<longrightarrow>
            categorize_expenses dt df =
              Inl (Error ''AttributeError'' ''Can only use .str accessor with string values!'')) \<and>
         categorize_expenses ObjectDtype [(''description'', [Str ''coffee at starbucks''])] =
           Inr [(''description'', [Str ''coffee at starbucks'']),
                (''category'', [Str ''Other''])]"
proof -
  let ?ok = "dt = ObjectDtype \<and> ((\<exists>s. Str s \<in> set d) \<or> (\<forall>c \<in> set d. c = NaN))"
  have acc: "str_accessor dt d =
      (if ?ok then Inr d
       else Inl (Error ''AttributeError'' ''Can only use .str accessor with string values!''))"
    unfolding str_accessor_def str_accessor_allowed [of d] ..
  define cats where "cats =
    fillna ''Other'' (map_dict CATEGORY_MAP
      (map (\<lambda>c. case c of Str x \<Rightarrow> Str (lower x) | _ \<Rightarrow> NaN) d))"
  have len: "length cats = length d"
    by (simp add: cats_def fillna_def map_dict_def)
  have cell: "cats ! i =
      Str (case d ! i of
             Str s \<Rightarrow> (case CATEGORY_MAP (lower s) of Some c \<Rightarrow> c | None \<Rightarrow> ''Other'')
           | _ \<Rightarrow> ''Other'')"
    if "i < length d" for i
    using that
    by (simp add: cats_def fillna_def map_dict_def split: cell.splits option.splits)
  have nonnull: "NaN \<notin> set cats"
  proof
    assume "NaN \<in> set cats"
    then obtain i where "i < length cats" and "cats ! i = NaN"
      by (auto simp: in_set_conv_nth)
    with len cell [of i] show False by simp
  qed
  have only_keys: "\<exists>s. d ! i = Str s \<and>
      lower s \<in> {''coffee'', ''groceries'', ''internet'', ''rent'', ''movie''}"
    if "i < length d" and "cats ! i \<noteq> Str ''Other''" for i
  proof (cases "d ! i")
    case (Str s)
    with that cell [of i] obtain c where "CATEGORY_MAP (lower s) = Some c"
      by (cases "CATEGORY_MAP (lower s)") auto
    then have "lower s \<in> dom CATEGORY_MAP" by blast
    with Str show ?thesis by (simp add: CATEGORY_MAP_dom)
  next
    case (Num x)
    with that cell [of i] show ?thesis by simp
  next
    case NaN
    with that cell [of i] show ?thesis by simp
  qed
  have good: "\<exists>df' cats.
      categorize_expenses dt df = Inr df' \<and>
      getitem df' ''category'' = Inr cats \<and>
      length cats = length d \<and>
      NaN \<notin> set cats \<and>
      (\<forall>i < length d.
         cats ! i =
           Str (case d ! i of
                  Str s \<Rightarrow> (case CATEGORY_MAP (lower s) of Some c \<Rightarrow> c | None \<Rightarrow> ''Other'')
                | _ \<Rightarrow> ''Other'') \<and>
         (cats ! i \<noteq> Str ''Other'' \<longrightarrow>
            (\<exists>s. d ! i = Str s \<and>
                 lower s \<in> {''coffee'', ''groceries'', ''internet'', ''rent'', ''movie''})))"
    if ok: ?ok
  proof -
    from acc ok have allowed: "str_accessor dt d = Inr d" by simp
    have run: "categorize_expenses dt df = Inr (assign df ''category'' cats)"
      using assms by (simp add: categorize_expenses_def str_lower_def allowed cats_def)
    from run len nonnull cell only_keys show ?thesis
      using getitem_assign_same [of df "''category''" cats] by blast
  qed
  have bad: "categorize_expenses dt df =
      Inl (Error ''AttributeError'' ''Can only use .str accessor with string values!'')"
    if no: "\<not> ?ok"
  proof -
    from acc no have "str_accessor dt d =
        Inl (Error ''AttributeError'' ''Can only use .str accessor with string values!'')"
      by simp
    with assms show ?thesis
      by (simp add: categorize_expenses_def str_lower_def)
  qed
  have example: "categorize_expenses ObjectDtype [(''description'', [Str ''coffee at starbucks''])] =
      Inr [(''description'', [Str ''coffee at starbucks'']), (''category'', [Str ''Other''])]"
    by (simp add: categorize_expenses_def getitem_def assign_def columns_def fillna_def
        map_dict_def str_lower_def str_accessor_def is_str_def lower_def lower_char_def
        CATEGORY_MAP_def)
  from good bad example show ?thesis by blast
qed

text \<open>
  The theorem at a frame of four rows: \<open>"coffee at starbucks"\<close> (no key as a whole),
  \<open>"Coffee"\<close> (the key \<open>coffee\<close> once lowercased), a missing description and \<open>"RENT"\<close>;
  and at a column of numbers.
\<close>

theorem categorize_expenses_exact_match_witness:
  "getitem [(''description'', [Str ''coffee at starbucks'', Str ''Coffee'', NaN, Str ''RENT''])]
     ''description'' = Inr [Str ''coffee at starbucks'', Str ''Coffee'', NaN, Str ''RENT''] \<and>
   Str ''Coffee'' \<in> set [Str ''coffee at starbucks'', Str ''Coffee'', NaN, Str ''RENT''] \<and>
   categorize_expenses ObjectDtype
     [(''description'', [Str ''coffee at starbucks'', Str ''Coffee'', NaN, Str ''RENT''])] =
     Inr [(''description'', [Str ''coffee at starbucks'', Str ''Coffee'', NaN, Str ''RENT'']),
          (''category'', [Str ''Other'', Str ''Food & Drink'', Str ''Other'', Str ''Housing''])] \<and>
   getitem [(''description'', [Num 5, Num 7])] ''description'' = Inr [Num 5, Num 7] \<and>
   categorize_expenses NumericDtype [(''description'', [Num 5, Num 7])] =
     Inl (Error ''AttributeError'' ''Can only use .str accessor with string values!'')"
proof -
  let ?d = "[Str ''coffee at starbucks'', Str ''Coffee'', NaN, Str ''RENT'']"
  have h: "getitem [(''description'', ?d)] ''description'' = Inr ?d"
    by (simp add: getitem_def)
  have ok: "ObjectDtype = ObjectDtype \<and> ((\<exists>s. Str s \<in> set ?d) \<or> (\<forall>c \<in> set ?d. c = NaN))"
    by auto
  from categorize_expenses_exact_match [OF h, of ObjectDtype, THEN conjunct1, THEN mp, OF ok]
  obtain df' cats where
    run: "categorize_expenses ObjectDtype [(''description'', ?d)] = Inr df'" and
    col: "getitem df' ''category'' = Inr cats" and
    len: "length cats = length ?d"
    by blast
  have result: "categorize_expenses ObjectDtype [(''description'', ?d)] =
       Inr [(''description'', ?d),
            (''category'', [Str ''Other'', Str ''Food & Drink'', Str ''Other'', Str ''Housing''])]"
    by (simp add: categorize_expenses_def getitem_def assign_def columns_def fillna_def
        map_dict_def str_lower_def str_accessor_def is_str_def lower_def lower_char_def
        CATEGORY_MAP_def)
  have g: "getitem [(''description'', [Num 5, Num 7])] ''description'' = Inr [Num 5, Num 7]"
    by (simp add: getitem_def)
  have no: "\<not> (NumericDtype = ObjectDtype \<and>
      ((\<exists>s. Str s \<in> set [Num 5, Num 7]) \<or> (\<forall>c \<in> set [Num 5, Num 7]. c = NaN)))"
    by simp
  note err = categorize_expenses_exact_match
    [OF g, of NumericDtype, THEN conjunct2, THEN conjunct1, THEN mp, OF no]
  from h run result g err show ?thesis by simp
qed

text \<open>
  The claim as first stated, that every row receives a category, fails on a description
  column without a string: for a column of numbers, and for a column loaded with every
  description missing, the accessor \<open>.str\<close> raises and no category is assigned.
\<close>

theorem numeric_description_counterexample:
  "categorize_expenses NumericDtype [(''description'', [Num 5, Num 7])] =
     Inl (Error ''AttributeError'' ''Can only use .str accessor with string values!'') \<and>
   categorize_expenses NumericDtype [(''description'', [NaN])] =
     Inl (Error ''AttributeError'' ''Can only use .str accessor with string values!'')"
  by (simp add: categorize_expenses_def getitem_def str_lower_def str_accessor_def)

section \<open>Choosing the branch in predict.py\<close>

lemma data_branch_not_Printed: "data_branch w model vectorizer p out \<noteq> Inr (Printed t l c)"
  by (simp add: data_branch_def split: sum.splits)

text \<open>
  C10, as amended. When both pickles load: if neither \<open>--data\<close> nor \<open>--text\<close> has a
  non-empty value (each is absent or the empty string), \<open>main\<close> raises \<open>ValueError\<close>
  with the message of line 50 and so makes no prediction; if \<open>--data\<close> has a non-empty
  value, \<open>main\<close> is the \<open>--data\<close> branch, whatever \<open>--text\<close> is, and never prints a
  single prediction.
\<close>

theorem predict_main_dispatch:
  assumes "expense_model_pkl w = Inr model" and "tfidf_vectorizer_pkl w = Inr vectorizer"
  shows "(arg_data a \<in> {None, Some []} \<and> arg_text a \<in> {None, Some []} \<longrightarrow>
            predict_main w a =
              Inl (ValueError
                ''Please provide either --data <file.csv> or --text 'expense description'.'')) \<and>
         (\<forall>path. arg_data a = Some path \<and> path \<noteq> [] \<longrightarrow>
            predict_main w a = data_branch w model vectorizer path (arg_output a) \<and>
            (\<forall>t. predict_main w (a\<lparr>arg_text := t\<rparr>) = predict_main w a) \<and>
            (\<forall>t l c. predict_main w a \<noteq> Inr (Printed t l c)))"
  using assms
  by (auto simp: predict_main_def given_def data_branch_not_Printed)

theorem predict_main_dispatch_witness:
  "expense_model_pkl demo_world = Inr demo_classifier \<and>
   predict_main demo_world \<lparr>arg_data = None, arg_text = None, arg_output = ''predictions.csv''\<rparr> =
     Inl (ValueError ''Please provide either --data <file.csv> or --text 'expense description'.'') \<and>
   predict_main demo_world
     \<lparr>arg_data = Some ''new.csv'', arg_text = Some ''movie'', arg_output = ''predictions.csv''\<rparr> =
     Inr (Saved ''predictions.csv''
       [(''description'', [Str ''coffee'', Str ''rent'']),
        (''predicted_category'', [Str ''Food & Drink'', Str ''Food & Drink'']),
        (''confidence'', [Num (7 / 10), Num (7 / 10)])])"
proof -
  have m: "expense_model_pkl demo_world = Inr demo_classifier"
    and v: "tfidf_vectorizer_pkl demo_world = Inr (\<lambda>d. Inr d)"
    by (simp_all add: demo_world_def)
  note d = predict_main_dispatch [OF m v]
  have 1: "predict_main demo_world
      \<lparr>arg_data = None, arg_text = None, arg_output = ''predictions.csv''\<rparr> =
     Inl (ValueError ''Please provide either --data <file.csv> or --text 'expense description'.'')"
    using d [of "\<lparr>arg_data = None, arg_text = None, arg_output = ''predictions.csv''\<rparr>"]
    by simp
  have "predict_main demo_world
      \<lparr>arg_data = Some ''new.csv'', arg_text = Some ''movie'', arg_output = ''predictions.csv''\<rparr> =
     data_branch demo_world demo_classifier (\<lambda>d. Inr d) ''new.csv'' ''predictions.csv''"
    using d [of "\<lparr>arg_data = Some ''new.csv'', arg_text = Some ''movie'',
                    arg_output = ''predictions.csv''\<rparr>"]
    by simp
  also have "\<dots> = Inr (Saved ''predictions.csv''
       [(''description'', [Str ''coffee'', Str ''rent'']),
        (''predicted_category'', [Str ''Food & Drink'', Str ''Food & Drink'']),
        (''confidence'', [Num (7 / 10), Num (7 / 10)])])"
    by (simp add: data_branch_def demo_world_def demo_classifier_def columns_def getitem_def
        setitem_def n_rows_def assign_def amax_def)
  finally show ?thesis using m 1 by simp
qed

text \<open>
  The claim as first stated fails twice. With no pickle on disk and neither argument
  given, \<open>main\<close> raises the loader's \<open>FileNotFoundError\<close>, not \<open>ValueError\<close>: the models
  are loaded before the arguments are looked at. With \<open>--data ""\<close> and \<open>--text rent\<close>
  both given, the \<open>--text\<close> branch runs: an empty \<open>--data\<close> is false.
\<close>

theorem predict_main_dispatch_counterexample:
  "predict_main no_pickles \<lparr>arg_data = None, arg_text = None, arg_output = ''predictions.csv''\<rparr> =
     Inl (FileNotFoundError ''No such file or directory: 'models/expense_model.pkl' '') \<and>
   predict_main demo_world
     \<lparr>arg_data = Some '''', arg_text = Some ''rent'', arg_output = ''predictions.csv''\<rparr> =
     Inr (Printed ''rent'' ''Food & Drink'' (7 / 10))"
  by (simp add: predict_main_def no_pickles_def demo_world_def demo_classifier_def given_def
      text_branch_def item0_def amax_def)

end
